theory Spec2Isabelle
  imports Main
begin

unbundle bit_operations_syntax

section \<open>The CDB firmware-update channel of \<open>cmisCDB.py\<close>\<close>

text \<open>
  A shallow embedding of \<open>sonic_platform_base/sonic_xcvr/api/public/cmisCDB.py\<close>.

  Python integers are unbounded and are modelled by \<open>int\<close>; Python's \<open>>>\<close> and \<open>&\<close>
  on them are \<open>drop_bit\<close> and \<open>AND\<close> (both languages use the infinite two's
  complement reading of a negative number). A \<open>bytes\<close> or \<open>bytearray\<close> value is a
  list of integers; Python keeps each item in \<open>range(256)\<close>, which the model writes out
  where the source stores a value that it has not masked.
\<close>

type_synonym bytes = "int list"

subsection \<open>Module constants\<close>

definition LPLPAGE :: int where "LPLPAGE = 0x9f"
definition CDB_RPL_OFFSET :: int where "CDB_RPL_OFFSET = 136"
definition CDB_WRITE_MSG_START :: int where "CDB_WRITE_MSG_START = 130"
definition PAGE_LENGTH :: int where "PAGE_LENGTH = 128"
definition INIT_OFFSET :: int where "INIT_OFFSET = 128"
definition CMDLEN :: nat where "CMDLEN = 2"
definition MAX_TRY :: nat where "MAX_TRY = 3"

subsection \<open>The register layer \<open>xcvr_eeprom\<close>\<close>

text \<open>
  The class \<open>XcvrEeprom\<close> behind \<open>self.xcvr_eeprom\<close> is not part of the sources at
  hand, so it is a parameter of the model. The code uses three of its operations:
  \<open>read(field)\<close>, \<open>read_flexible(offset, length)\<close> and
  \<open>write_flexible(offset, length, data)\<close>, and it ignores what \<open>write_flexible\<close>
  returns. What the module answers is given by two oracles: \<open>field_values f k\<close> is
  the integer that the \<open>k\<close>-th read of field \<open>f\<close> returns (counting from 0), and
  \<open>flexible_values k offset length\<close> the bytes of the \<open>k\<close>-th raw read. Since the
  code is deterministic in the values it reads, every behaviour of a real module, also
  one that reacts to what was written, is the run of the model under some oracle.

  Everything the code does to the outside is appended to \<open>log\<close>, in program order:
  register accesses, \<open>time.sleep\<close> and \<open>print\<close>.
\<close>

datatype field = MODULE_FIRMWARE_FAULT_INFO | CDB1_STATUS | CDB_RPL_LENGTH | CDB_RPL_CHKCODE

datatype message =
    StatusFail int  \<comment> \<open>\<open>'CDB1 status: Fail. CDB1 status %d' % status\<close>\<close>
  | ImageSize int   \<comment> \<open>\<open>"Image size is {}".format(imagesize)\<close>\<close>
  | WriteTime       \<comment> \<open>\<open>'2048B write time:  %.2fs'\<close>; the elapsed time is not modelled\<close>

datatype event =
    Read field
  | ReadFlexible int int
  | WriteFlexible int int bytes
  | Sleep nat
  | Print message

record xcvr_eeprom =
  field_values :: "field \<Rightarrow> nat \<Rightarrow> int"
  flexible_values :: "nat \<Rightarrow> int \<Rightarrow> int \<Rightarrow> bytes"
  log :: "event list"

definition emit :: "event \<Rightarrow> xcvr_eeprom \<Rightarrow> xcvr_eeprom" where
  "emit e s = s\<lparr>log := log s @ [e]\<rparr>"

definition read :: "field \<Rightarrow> xcvr_eeprom \<Rightarrow> int \<times> xcvr_eeprom" where
  "read f s = (field_values s f (count_list (log s) (Read f)), emit (Read f) s)"

fun is_ReadFlexible :: "event \<Rightarrow> bool" where
  "is_ReadFlexible (ReadFlexible off n) = True"
| "is_ReadFlexible e = False"

definition read_flexible :: "int \<Rightarrow> int \<Rightarrow> xcvr_eeprom \<Rightarrow> bytes \<times> xcvr_eeprom" where
  "read_flexible off n s =
     (flexible_values s (length (filter is_ReadFlexible (log s))) off n,
      emit (ReadFlexible off n) s)"

definition write_flexible :: "int \<Rightarrow> int \<Rightarrow> bytes \<Rightarrow> xcvr_eeprom \<Rightarrow> xcvr_eeprom" where
  "write_flexible off n data s = emit (WriteFlexible off n data) s"

definition sleep :: "nat \<Rightarrow> xcvr_eeprom \<Rightarrow> xcvr_eeprom" where
  "sleep n s = emit (Sleep n) s"

definition print :: "message \<Rightarrow> xcvr_eeprom \<Rightarrow> xcvr_eeprom" where
  "print m s = emit (Print m) s"

subsection \<open>Errors\<close>

text \<open>
  The exceptions the code can raise by itself: a failed \<open>assert\<close>, a bytearray item
  outside \<open>range(256)\<close>, \<open>struct.pack\<close> on a value that does not fit, a division
  by zero, and a local variable read before it is bound.
\<close>

datatype error = AssertionError | ValueError | StructError | ZeroDivisionError | UnboundLocalError

subsection \<open>\<open>cdb1_chkflags\<close>\<close>

definition cdb1_chkflags :: "xcvr_eeprom \<Rightarrow> (error + bool) \<times> xcvr_eeprom" where
  "cdb1_chkflags s =
     (let (status, s1) = read MODULE_FIRMWARE_FAULT_INFO s;
          datapath_firmware_fault = ((drop_bit 2 status) AND 1 \<noteq> 0);
          module_firmware_fault = ((drop_bit 1 status) AND 1 \<noteq> 0);
          cdb1_command_complete = ((drop_bit 6 status) AND 1 \<noteq> 0)
      in if datapath_firmware_fault then (Inl AssertionError, s1)
         else if module_firmware_fault then (Inl AssertionError, s1)
         else if cdb1_command_complete then (Inr False, s1)
         else (Inr True, s1))"

subsection \<open>\<open>cdb_chkcode\<close>\<close>

text \<open>The loop \<open>for byte in cmd: checksum += byte\<close> is a left fold from 0.\<close>

definition cdb_chkcode :: "bytes \<Rightarrow> int" where
  "cdb_chkcode cmd = 0xff - ((fold (\<lambda>byte checksum. checksum + byte) cmd 0) AND 0xff)"

subsection \<open>\<open>cdb1_chkstatus\<close>\<close>

text \<open>
  The \<open>while is_busy\<close> loop has no bound, so it is a partial function: \<open>None\<close> is a
  call that never returns. The loop body sleeps and computes \<open>is_busy\<close> again from the
  local \<open>status\<close>, as the source does; it performs no register access.
\<close>

partial_function (option) chkstatus_while ::
    "int \<Rightarrow> bool \<Rightarrow> xcvr_eeprom \<Rightarrow> (int \<times> xcvr_eeprom) option" where
  "chkstatus_while status is_busy s =
     (if is_busy
      then chkstatus_while status ((drop_bit 7 status) AND 1 \<noteq> 0) (sleep 1 s)
      else Some (status, s))"

definition cdb1_chkstatus :: "xcvr_eeprom \<Rightarrow> (int \<times> xcvr_eeprom) option" where
  "cdb1_chkstatus s =
     (let (status, s1) = read CDB1_STATUS s;
          is_busy = ((drop_bit 7 status) AND 1 \<noteq> 0)
      in chkstatus_while status is_busy s1)"

subsection \<open>\<open>write_cdb\<close> and \<open>read_cdb\<close>\<close>

text \<open>\<open>cmd[CMDLEN:]\<close> is \<open>drop CMDLEN cmd\<close> and \<open>cmd[:CMDLEN]\<close> is \<open>take CMDLEN cmd\<close>.\<close>

definition write_cdb :: "bytes \<Rightarrow> xcvr_eeprom \<Rightarrow> xcvr_eeprom" where
  "write_cdb cmd s =
     (let s1 = write_flexible (LPLPAGE * PAGE_LENGTH + CDB_WRITE_MSG_START)
                 (int (length cmd) - int CMDLEN) (drop CMDLEN cmd) s;
          s2 = write_flexible (LPLPAGE * PAGE_LENGTH + INIT_OFFSET)
                 (int CMDLEN) (take CMDLEN cmd) s1
      in s2)"

definition read_cdb :: "xcvr_eeprom \<Rightarrow> (int \<times> int \<times> bytes) \<times> xcvr_eeprom" where
  "read_cdb s =
     (let (rpllen, s1) = read CDB_RPL_LENGTH s;
          (rpl_chkcode, s2) = read CDB_RPL_CHKCODE s1;
          (rpl, s3) = read_flexible (LPLPAGE * PAGE_LENGTH + CDB_RPL_OFFSET) rpllen s2
      in ((rpllen, rpl_chkcode, rpl), s3))"

subsection \<open>The retry loop of the commands\<close>

text \<open>
  Every command ends with the same loop, repeated in the source word for word:
  \<^verbatim>\<open>
  for attemp in range(MAX_TRY):
      self.write_cdb(cmd)
      time.sleep(2)
      status = self.cdb1_chkstatus()
      if (status != 0x1):
          print('CDB1 status: Fail. CDB1 status %d' %status)
          continue
      else:
          break
  \<close>
  \<open>retry_loop n cmd status s\<close> runs the \<open>n\<close> iterations that are left. The local
  variable \<open>status\<close> is unbound before the first iteration (\<open>None\<close>); the loop
  returns it with the state. A \<open>cdb1_chkstatus\<close> that never returns makes the loop
  never return.
\<close>

fun retry_loop ::
    "nat \<Rightarrow> bytes \<Rightarrow> int option \<Rightarrow> xcvr_eeprom \<Rightarrow> (int option \<times> xcvr_eeprom) option" where
  "retry_loop 0 cmd status s = Some (status, s)"
| "retry_loop (Suc n) cmd status s =
     (case cdb1_chkstatus (sleep 2 (write_cdb cmd s)) of
        None \<Rightarrow> None
      | Some (status', s1) \<Rightarrow>
          if status' \<noteq> 0x1
          then retry_loop n cmd (Some status') (print (StatusFail status') s1)
          else Some (Some status', s1))"

text \<open>\<open>return self.read_cdb()\<close> after the loop: the local \<open>status\<close> is not used.\<close>

definition return_read_cdb ::
    "(int option \<times> xcvr_eeprom) option \<Rightarrow> ((int \<times> int \<times> bytes) \<times> xcvr_eeprom) option" where
  "return_read_cdb r = (case r of None \<Rightarrow> None | Some (status, s) \<Rightarrow> Some (read_cdb s))"

text \<open>\<open>return status\<close> after the loop.\<close>

definition return_status ::
    "(int option \<times> xcvr_eeprom) option \<Rightarrow> ((error + int) \<times> xcvr_eeprom) option" where
  "return_status r =
     (case r of
        None \<Rightarrow> None
      | Some (None, s) \<Rightarrow> Some (Inl UnboundLocalError, s)
      | Some (Some status, s) \<Rightarrow> Some (Inr status, s))"

text \<open>
  \<open>cmd[133-INIT_OFFSET] = self.cdb_chkcode(cmd)\<close>: the check code goes to index 5. It
  lies in \<open>range(256)\<close> and every frame of the source has more than 5 bytes, so the
  assignment cannot raise.
\<close>

definition set_chkcode :: "bytes \<Rightarrow> bytes" where
  "set_chkcode cmd = cmd[nat (133 - INIT_OFFSET) := cdb_chkcode cmd]"

subsection \<open>Commands that return the reply\<close>

definition cmd0000h_frame :: bytes where
  "cmd0000h_frame = set_chkcode [0x00, 0x00, 0x00, 0x00, 0x02, 0x00, 0x00, 0x00, 0x00, 0x10]"

definition cmd0000h :: "xcvr_eeprom \<Rightarrow> ((int \<times> int \<times> bytes) \<times> xcvr_eeprom) option" where
  "cmd0000h s = return_read_cdb (retry_loop MAX_TRY cmd0000h_frame None s)"

definition cmd0001h_frame :: bytes where
  "cmd0001h_frame =
     set_chkcode [0x00, 0x01, 0x00, 0x00, 0x04, 0x00, 0x00, 0x00, 0x00, 0x00, 0x10, 0x11]"

definition cmd0001h :: "xcvr_eeprom \<Rightarrow> ((int \<times> int \<times> bytes) \<times> xcvr_eeprom) option" where
  "cmd0001h s = return_read_cdb (retry_loop MAX_TRY cmd0001h_frame None s)"

definition cmd0040h_frame :: bytes where
  "cmd0040h_frame = set_chkcode [0x00, 0x40, 0x00, 0x00, 0x00, 0x00, 0x00, 0x00]"

definition cmd0040h :: "xcvr_eeprom \<Rightarrow> ((int \<times> int \<times> bytes) \<times> xcvr_eeprom) option" where
  "cmd0040h s = return_read_cdb (retry_loop MAX_TRY cmd0040h_frame None s)"

definition cmd0041h_frame :: bytes where
  "cmd0041h_frame = set_chkcode [0x00, 0x41, 0x00, 0x00, 0x00, 0x00, 0x00, 0x00]"

definition cmd0041h :: "xcvr_eeprom \<Rightarrow> ((int \<times> int \<times> bytes) \<times> xcvr_eeprom) option" where
  "cmd0041h s = return_read_cdb (retry_loop MAX_TRY cmd0041h_frame None s)"

definition cmd0100h_frame :: bytes where
  "cmd0100h_frame = set_chkcode [0x01, 0x00, 0x00, 0x00, 0x00, 0x00, 0x00, 0x00]"

definition cmd0100h :: "xcvr_eeprom \<Rightarrow> ((int \<times> int \<times> bytes) \<times> xcvr_eeprom) option" where
  "cmd0100h s = return_read_cdb (retry_loop MAX_TRY cmd0100h_frame None s)"

subsection \<open>Commands that return the status\<close>

text \<open>
  An item stored into a bytearray must lie in \<open>range(256)\<close>, else Python raises
  \<open>ValueError\<close>. \<open>cmd0101h\<close> stores \<open>startLPLsize + 8\<close> as it is; the four bytes of
  \<open>imagesize\<close> are masked with \<open>0xff\<close> first.
\<close>

definition cmd0101h_frame :: "int \<Rightarrow> bytes \<Rightarrow> int \<Rightarrow> error + bytes" where
  "cmd0101h_frame startLPLsize header imagesize =
     (let cmd = [0x01, 0x01, 0x00, 0x00, 0x00, 0x00, 0x00, 0x00,
                 0x00, 0x00, 0x00, 0x00, 0x00, 0x00, 0x00, 0x00]
      in if startLPLsize + 8 < 0 \<or> 255 < startLPLsize + 8 then Inl ValueError
         else
           let cmd = cmd[nat (132 - INIT_OFFSET) := startLPLsize + 8];
               cmd = cmd[nat (136 - INIT_OFFSET) := (drop_bit 24 imagesize) AND 0xff];
               cmd = cmd[nat (137 - INIT_OFFSET) := (drop_bit 16 imagesize) AND 0xff];
               cmd = cmd[nat (138 - INIT_OFFSET) := (drop_bit 8 imagesize) AND 0xff];
               cmd = cmd[nat (139 - INIT_OFFSET) := (drop_bit 0 imagesize) AND 0xff];
               cmd = cmd @ header
           in Inr (set_chkcode cmd))"

definition cmd0101h ::
    "int \<Rightarrow> bytes \<Rightarrow> int \<Rightarrow> xcvr_eeprom \<Rightarrow> ((error + int) \<times> xcvr_eeprom) option" where
  "cmd0101h startLPLsize header imagesize s =
     (let s0 = print (ImageSize imagesize) s
      in case cmd0101h_frame startLPLsize header imagesize of
           Inl e \<Rightarrow> Some (Inl e, s0)
         | Inr cmd \<Rightarrow> return_status (retry_loop MAX_TRY cmd None s0))"

definition cmd0102h_frame :: bytes where
  "cmd0102h_frame = set_chkcode [0x01, 0x02, 0x00, 0x00, 0x00, 0x00, 0x00, 0x00]"

definition cmd0102h :: "xcvr_eeprom \<Rightarrow> ((error + int) \<times> xcvr_eeprom) option" where
  "cmd0102h s = return_status (retry_loop MAX_TRY cmd0102h_frame None s)"

text \<open>\<open>data.ljust(116, b'\x00')\<close> pads on the right and never shortens.\<close>

definition ljust :: "bytes \<Rightarrow> nat \<Rightarrow> int \<Rightarrow> bytes" where
  "ljust data width fillbyte = data @ replicate (width - length data) fillbyte"

definition cmd0103h_frame :: "int \<Rightarrow> bytes \<Rightarrow> bytes" where
  "cmd0103h_frame addr data =
     (let lpl_len = int (length data) + 4;
          cmd = [0x01, 0x03, 0x00, 0x00, 0x00, 0x00, 0x00, 0x00, 0x00, 0x00, 0x00, 0x00];
          cmd = cmd[nat (132 - INIT_OFFSET) := lpl_len AND 0xff];
          cmd = cmd[nat (136 - INIT_OFFSET) := (drop_bit 24 addr) AND 0xff];
          cmd = cmd[nat (137 - INIT_OFFSET) := (drop_bit 16 addr) AND 0xff];
          cmd = cmd[nat (138 - INIT_OFFSET) := (drop_bit 8 addr) AND 0xff];
          cmd = cmd[nat (139 - INIT_OFFSET) := (drop_bit 0 addr) AND 0xff];
          paddedPayload = ljust data 116 0x00;
          cmd = cmd @ paddedPayload
      in set_chkcode cmd)"

definition cmd0103h ::
    "int \<Rightarrow> bytes \<Rightarrow> xcvr_eeprom \<Rightarrow> ((error + int) \<times> xcvr_eeprom) option" where
  "cmd0103h addr data s = return_status (retry_loop MAX_TRY (cmd0103h_frame addr data) None s)"

subsection \<open>\<open>cmd0104h\<close>: download with the extended payload\<close>

text \<open>
  \<open>data[lo:hi]\<close> for indices that are not negative, which is all the source uses:
  the slice is clipped at the end of \<open>data\<close>.
\<close>

definition slice :: "bytes \<Rightarrow> nat \<Rightarrow> nat \<Rightarrow> bytes" where
  "slice data lo hi = take (hi - lo) (drop lo data)"

text \<open>
  \<open>range(0, stop, step)\<close> for \<open>0 \<le> stop\<close> and \<open>step \<noteq> 0\<close>: empty when the step is
  negative.
\<close>

definition range_step :: "int \<Rightarrow> int \<Rightarrow> int list" where
  "range_step stop step =
     (if 0 < step then map (\<lambda>k. int k * step) [0..<nat ((stop + step - 1) div step)] else [])"

text \<open>\<open>struct.pack('>L', addr)\<close>: four bytes, most significant first; an error out of range.\<close>

definition struct_pack_L :: "int \<Rightarrow> error + bytes" where
  "struct_pack_L v =
     (if v < 0 \<or> 2 ^ 32 \<le> v then Inl StructError
      else Inr [v div 2 ^ 24 mod 256, v div 2 ^ 16 mod 256, v div 2 ^ 8 mod 256, v mod 256])"

text \<open>The body of \<open>for pageoffset in range(pages)\<close>.\<close>

definition write_page :: "bytes \<Rightarrow> nat \<Rightarrow> xcvr_eeprom \<Rightarrow> xcvr_eeprom" where
  "write_page data pageoffset s =
     (let epl_len = 2048;
          next_page = 0xa0 + int pageoffset
      in if PAGE_LENGTH * (int pageoffset + 1) \<le> epl_len
         then
           let datachunk = slice data (nat (PAGE_LENGTH * int pageoffset))
                             (nat (PAGE_LENGTH * (int pageoffset + 1)))
           in write_flexible (next_page * PAGE_LENGTH + INIT_OFFSET) PAGE_LENGTH datachunk s
         else
           let datachunk = drop (nat (INIT_OFFSET * int pageoffset)) data
           in write_flexible (next_page * PAGE_LENGTH + INIT_OFFSET)
                (int (length datachunk)) datachunk s)"

text \<open>The body of \<open>for offset in range(0, epl_len, writelength)\<close>.\<close>

definition write_section :: "bytes \<Rightarrow> int \<Rightarrow> int \<Rightarrow> xcvr_eeprom \<Rightarrow> xcvr_eeprom" where
  "write_section data writelength offset s =
     (let epl_len = 2048
      in if offset + writelength \<le> epl_len
         then
           let datachunk = slice data (nat offset) (nat (offset + writelength))
           in write_flexible (0xA0 * PAGE_LENGTH + offset + INIT_OFFSET) writelength datachunk s
         else
           let datachunk = drop (nat offset) data
           in write_flexible (0xA0 * PAGE_LENGTH + offset + INIT_OFFSET)
                (int (length datachunk)) datachunk s)"

text \<open>
  The staging part of \<open>cmd0104h\<close>, up to the \<open>print\<close> of the write time. The two
  calls of \<open>time.time()\<close> only feed that \<open>print\<close> and are left out. In the
  auto-paging branch \<open>epl_len // writelength\<close> raises on a zero \<open>writelength\<close>; the
  local \<open>sections\<close> is computed and never used.
\<close>

definition cmd0104h_stage :: "bytes \<Rightarrow> bool \<Rightarrow> int \<Rightarrow> xcvr_eeprom \<Rightarrow> error + xcvr_eeprom" where
  "cmd0104h_stage data autopaging_flag writelength s =
     (let epl_len = 2048
      in if \<not> autopaging_flag
         then
           let pages = epl_len div PAGE_LENGTH;
               pages = (if epl_len mod PAGE_LENGTH \<noteq> 0 then pages + 1 else pages)
           in Inr (fold (write_page data) [0..<nat pages] s)
         else if writelength = 0 then Inl ZeroDivisionError
         else Inr (fold (write_section data writelength) (range_step epl_len writelength) s))"

definition cmd0104h ::
    "int \<Rightarrow> bytes \<Rightarrow> bool \<Rightarrow> int \<Rightarrow> xcvr_eeprom \<Rightarrow> ((error + int) \<times> xcvr_eeprom) option" where
  "cmd0104h addr data autopaging_flag writelength s =
     (case cmd0104h_stage data autopaging_flag writelength s of
        Inl e \<Rightarrow> Some (Inl e, s)
      | Inr s1 \<Rightarrow>
          let s2 = print WriteTime s1;
              cmd = [0x01, 0x04, 0x08, 0x00, 0x04, 0x00, 0x00, 0x00]
          in case struct_pack_L addr of
               Inl e \<Rightarrow> Some (Inl e, s2)
             | Inr addr_byte \<Rightarrow>
                 return_status (retry_loop MAX_TRY (set_chkcode (cmd @ addr_byte)) None s2))"

subsection \<open>The remaining commands\<close>

definition cmd0107h_frame :: bytes where
  "cmd0107h_frame = set_chkcode [0x01, 0x07, 0x00, 0x00, 0x00, 0x00, 0x00, 0x00]"

definition cmd0107h :: "xcvr_eeprom \<Rightarrow> ((error + int) \<times> xcvr_eeprom) option" where
  "cmd0107h s = return_status (retry_loop MAX_TRY cmd0107h_frame None s)"

text \<open>\<open>cmd0109h\<close> stores \<open>mode\<close> unmasked, so a \<open>mode\<close> outside \<open>range(256)\<close> raises.\<close>

definition cmd0109h_frame :: "int \<Rightarrow> error + bytes" where
  "cmd0109h_frame mode =
     (let cmd = [0x01, 0x09, 0x00, 0x00, 0x04, 0x00, 0x00, 0x00, 0x00, 0x00, 0x00, 0x00]
      in if mode < 0 \<or> 255 < mode then Inl ValueError
         else
           let cmd = cmd[nat (137 - INIT_OFFSET) := mode];
               cmd = cmd[nat (138 - INIT_OFFSET) := 2]
           in Inr (set_chkcode cmd))"

definition cmd0109h :: "int \<Rightarrow> xcvr_eeprom \<Rightarrow> ((error + int) \<times> xcvr_eeprom) option" where
  "cmd0109h mode s =
     (case cmd0109h_frame mode of
        Inl e \<Rightarrow> Some (Inl e, s)
      | Inr cmd \<Rightarrow> return_status (retry_loop MAX_TRY cmd None s))"

definition cmd010Ah_frame :: bytes where
  "cmd010Ah_frame = set_chkcode [0x01, 0x0A, 0x00, 0x00, 0x00, 0x00, 0x00, 0x00]"

definition cmd010Ah :: "xcvr_eeprom \<Rightarrow> ((error + int) \<times> xcvr_eeprom) option" where
  "cmd010Ah s = return_status (retry_loop MAX_TRY cmd010Ah_frame None s)"

section \<open>Observations on a run\<close>

text \<open>
  \<open>polled s k\<close> is the value that the \<open>k\<close>-th read of the status register from
  state \<open>s\<close> on will return.
\<close>

definition polled :: "xcvr_eeprom \<Rightarrow> nat \<Rightarrow> int" where
  "polled s k = field_values s CDB1_STATUS (count_list (log s) (Read CDB1_STATUS) + k)"

text \<open>
  No status read that the retry loop performs from state \<open>s\<close> on finds the module
  busy: the first read is not busy; unless it is \<open>0x01\<close>, which ends the loop, the
  second is not busy; and unless that one is \<open>0x01\<close>, the third is not busy.
\<close>

definition no_busy_poll :: "xcvr_eeprom \<Rightarrow> bool" where
  "no_busy_poll s =
     (\<not> bit (polled s 0) 7 \<and>
      (polled s 0 = 0x1 \<or>
       (\<not> bit (polled s 1) 7 \<and> (polled s 1 = 0x1 \<or> \<not> bit (polled s 2) 7))))"

text \<open>The same for the fault flags: the value that the next read of them returns.\<close>

definition fault_flags :: "xcvr_eeprom \<Rightarrow> int" where
  "fault_flags s =
     field_values s MODULE_FIRMWARE_FAULT_INFO (count_list (log s) (Read MODULE_FIRMWARE_FAULT_INFO))"

text \<open>
  The events of one attempt on a frame: the payload part goes to byte 130 of page
  \<open>0x9f\<close> (\<open>0x9f * 128 + 130 = 20482\<close>), the two opcode bytes go to byte 128 of that page
  (\<open>20480\<close>), then the settle delay and one status read. A failed attempt also prints
  the status.
\<close>

definition attempt_events :: "bytes \<Rightarrow> event list" where
  "attempt_events cmd =
     [WriteFlexible 20482 (int (length cmd) - 2) (drop 2 cmd),
      WriteFlexible 20480 2 (take 2 cmd),
      Sleep 2,
      Read CDB1_STATUS]"

definition failed_attempt :: "bytes \<Rightarrow> int \<Rightarrow> event list" where
  "failed_attempt cmd status = attempt_events cmd @ [Print (StatusFail status)]"

text \<open>
  The events and the final status of the three iterations of the retry loop, for
  the statuses \<open>v0\<close>, \<open>v1\<close>, \<open>v2\<close> that the three reads would return.
\<close>

definition retry_events :: "bytes \<Rightarrow> int \<Rightarrow> int \<Rightarrow> int \<Rightarrow> event list" where
  "retry_events cmd v0 v1 v2 =
     (if v0 = 1 then attempt_events cmd
      else if v1 = 1 then failed_attempt cmd v0 @ attempt_events cmd
      else if v2 = 1 then failed_attempt cmd v0 @ failed_attempt cmd v1 @ attempt_events cmd
      else failed_attempt cmd v0 @ failed_attempt cmd v1 @ failed_attempt cmd v2)"

definition retry_status :: "int \<Rightarrow> int \<Rightarrow> int \<Rightarrow> int" where
  "retry_status v0 v1 v2 = (if v0 = 1 \<or> v1 = 1 then 1 else v2)"

text \<open>An attempt is counted by its write of the opcode, which arms the command.\<close>

fun is_opcode_write :: "event \<Rightarrow> bool" where
  "is_opcode_write (WriteFlexible off n data) = (off = 20480)"
| "is_opcode_write e = False"

definition attempts_in :: "event list \<Rightarrow> nat" where
  "attempts_in evs = length (filter is_opcode_write evs)"

text \<open>The statuses that a run has reported as failed, in order.\<close>

fun reported_failures :: "event list \<Rightarrow> int list" where
  "reported_failures [] = []"
| "reported_failures (Print (StatusFail status) # evs) = status # reported_failures evs"
| "reported_failures (e # evs) = reported_failures evs"

text \<open>
  What a caller and an observer get from a command that was started in state \<open>s\<close>:
  the value returned, the number of attempts made and the statuses reported as failed.
  \<open>None\<close> is a command that never returns.
\<close>

definition events_since :: "xcvr_eeprom \<Rightarrow> xcvr_eeprom \<Rightarrow> event list" where
  "events_since s s' = drop (length (log s)) (log s')"

definition summary ::
    "xcvr_eeprom \<Rightarrow> ('a \<times> xcvr_eeprom) option \<Rightarrow> ('a \<times> nat \<times> int list) option" where
  "summary s r =
     (case r of
        None \<Rightarrow> None
      | Some (x, s') \<Rightarrow>
          Some (x, attempts_in (events_since s s'), reported_failures (events_since s s')))"

text \<open>A command that returns, after at most \<open>k\<close> attempts.\<close>

definition returns_within :: "nat \<Rightarrow> ('a \<times> nat \<times> int list) option \<Rightarrow> bool" where
  "returns_within k r = (case r of None \<Rightarrow> False | Some (x, n, failed) \<Rightarrow> n \<le> k)"

text \<open>
  The number that four bytes encode, most significant byte first (what
  \<open>struct.unpack('>L', bs)\<close> reads).
\<close>

definition be32 :: "bytes \<Rightarrow> int" where
  "be32 bs = ((bs ! 0 * 256 + bs ! 1) * 256 + bs ! 2) * 256 + bs ! 3"

text \<open>
  A module for concrete runs: its status register answers \<open>statuses k\<close> to the
  \<open>k\<close>-th read, its fault flags read \<open>faults\<close>, and its reply is the three bytes
  \<open>1, 2, 3\<close> with their check code \<open>0xf9\<close>.
\<close>

definition example_module :: "(nat \<Rightarrow> int) \<Rightarrow> int \<Rightarrow> xcvr_eeprom" where
  "example_module statuses faults =
     \<lparr>field_values = (\<lambda>f k. case f of
          MODULE_FIRMWARE_FAULT_INFO \<Rightarrow> faults
        | CDB1_STATUS \<Rightarrow> statuses k
        | CDB_RPL_LENGTH \<Rightarrow> 3
        | CDB_RPL_CHKCODE \<Rightarrow> 0xf9),
      flexible_values = (\<lambda>k off n. [1, 2, 3]),
      log = []\<rparr>"

section \<open>Basic facts\<close>

lemma and_ff: "(k::int) AND 0xff = k mod 256"
  using take_bit_eq_mask[of 8 k] by (simp add: take_bit_eq_mod mask_eq_exp_minus_1)

lemma and_1_bit: "((drop_bit n (k::int)) AND 1 \<noteq> 0) = bit k n"
  by (simp add: and_one_eq bit_iff_odd_drop_bit mod_2_eq_odd)

lemma fold_sum: "fold (\<lambda>byte checksum. checksum + byte) cmd (a::int) = a + sum_list cmd"
  by (induction cmd arbitrary: a) auto

lemma cdb_chkcode_eq: "cdb_chkcode cmd = 255 - sum_list cmd mod 256"
  by (simp add: cdb_chkcode_def fold_sum and_ff)

lemma sum_list_upd: "i < length xs \<Longrightarrow> sum_list (xs[i := (v::int)]) = sum_list xs - xs ! i + v"
  by (induction xs arbitrary: i) (auto split: nat.splits)

lemma emit_eq: "emit e s = s\<lparr>log := log s @ [e]\<rparr>"
  by (simp add: emit_def)

lemma polled_log:
  "polled (s\<lparr>log := log s @ evs\<rparr>) k = polled s (count_list evs (Read CDB1_STATUS) + k)"
  by (simp add: polled_def add.assoc)

subsection \<open>The wait loop\<close>

lemma chkstatus_while_idle: "chkstatus_while status False s = Some (status, s)"
  by (subst chkstatus_while.simps) simp

text \<open>
  A call that starts busy on a busy status cannot return: by the fixpoint induction of
  the loop, every call that returns has \<open>is_busy\<close> false or a status whose bit 7 is
  clear, and the loop never changes the status.
\<close>

lemma chkstatus_while_returns:
  assumes "chkstatus_while status b s = Some r"
  shows "\<not> (b \<and> bit status 7)"
  by (rule chkstatus_while.raw_induct
        [where P = "\<lambda>status b s r. \<not> (b \<and> bit status 7)", OF _ assms])
     (auto simp: and_1_bit split: if_splits)

lemma chkstatus_while_busy: "bit status 7 \<Longrightarrow> chkstatus_while status True s = None"
  using chkstatus_while_returns[of status True s]
  by (cases "chkstatus_while status True s") auto

lemma cdb1_chkstatus_eq:
  "cdb1_chkstatus s =
     (if bit (polled s 0) 7 then None else Some (polled s 0, emit (Read CDB1_STATUS) s))"
  by (simp add: cdb1_chkstatus_def read_def polled_def and_1_bit chkstatus_while_idle
      chkstatus_while_busy)

subsection \<open>The retry loop\<close>

lemma write_cdb_eq:
  "write_cdb cmd s = s\<lparr>log := log s @
     [WriteFlexible 20482 (int (length cmd) - 2) (drop 2 cmd),
      WriteFlexible 20480 2 (take 2 cmd)]\<rparr>"
  by (simp add: write_cdb_def write_flexible_def emit_def LPLPAGE_def PAGE_LENGTH_def
      CDB_WRITE_MSG_START_def INIT_OFFSET_def CMDLEN_def)

lemma retry_loop_step:
  "\<not> bit (polled s 0) 7 \<Longrightarrow>
   retry_loop (Suc n) cmd st s =
     (if polled s 0 \<noteq> 1
      then retry_loop n cmd (Some (polled s 0))
             (s\<lparr>log := log s @ failed_attempt cmd (polled s 0)\<rparr>)
      else Some (Some 1, s\<lparr>log := log s @ attempt_events cmd\<rparr>))"
  by (simp add: cdb1_chkstatus_eq write_cdb_eq sleep_def print_def emit_eq polled_log
      failed_attempt_def attempt_events_def)

lemma retry_loop_busy: "bit (polled s 0) 7 \<Longrightarrow> retry_loop (Suc n) cmd st s = None"
  by (simp add: cdb1_chkstatus_eq write_cdb_eq sleep_def print_def emit_eq polled_log)

text \<open>The three iterations, when no status read is busy.\<close>

lemma retry_loop_3:
  assumes "no_busy_poll s"
  shows "retry_loop MAX_TRY cmd None s =
    (if polled s 0 = 1 then Some (Some 1, s\<lparr>log := log s @ attempt_events cmd\<rparr>)
     else if polled s 1 = 1 then
       Some (Some 1, s\<lparr>log := log s @ failed_attempt cmd (polled s 0) @ attempt_events cmd\<rparr>)
     else if polled s 2 = 1 then
       Some (Some 1, s\<lparr>log := log s @ failed_attempt cmd (polled s 0) @
              failed_attempt cmd (polled s 1) @ attempt_events cmd\<rparr>)
     else
       Some (Some (polled s 2), s\<lparr>log := log s @ failed_attempt cmd (polled s 0) @
              failed_attempt cmd (polled s 1) @ failed_attempt cmd (polled s 2)\<rparr>))"
proof -
  let ?s1 = "s\<lparr>log := log s @ failed_attempt cmd (polled s 0)\<rparr>"
  let ?s2 = "s\<lparr>log := log s @ failed_attempt cmd (polled s 0) @ failed_attempt cmd (polled s 1)\<rparr>"
  have p1: "polled ?s1 0 = polled s 1" and p2: "polled ?s2 0 = polled s 2"
    by (simp_all add: polled_log failed_attempt_def attempt_events_def numeral_2_eq_2)
  have s12: "?s1\<lparr>log := log ?s1 @ evs\<rparr> =
      s\<lparr>log := log s @ failed_attempt cmd (polled s 0) @ evs\<rparr>" for evs
    by simp
  have s23: "?s2\<lparr>log := log ?s2 @ evs\<rparr> =
      s\<lparr>log := log s @ failed_attempt cmd (polled s 0) @ failed_attempt cmd (polled s 1) @ evs\<rparr>"
    for evs
    by simp
  have b0: "\<not> bit (polled s 0) 7"
    using assms by (simp add: no_busy_poll_def)
  have l1: "retry_loop MAX_TRY cmd None s =
      (if polled s 0 \<noteq> 1 then retry_loop (Suc (Suc 0)) cmd (Some (polled s 0)) ?s1
       else Some (Some 1, s\<lparr>log := log s @ attempt_events cmd\<rparr>))"
    unfolding MAX_TRY_def numeral_3_eq_3 using b0 by (rule retry_loop_step)
  show ?thesis
  proof (cases "polled s 0 = 1")
    case True
    then show ?thesis by (simp only: l1) simp
  next
    case v0: False
    then have b1: "\<not> bit (polled ?s1 0) 7"
      using assms by (simp only: p1) (simp add: no_busy_poll_def)
    have l2: "retry_loop (Suc (Suc 0)) cmd (Some (polled s 0)) ?s1 =
        (if polled s 1 \<noteq> 1 then retry_loop (Suc 0) cmd (Some (polled s 1)) ?s2
         else Some (Some 1, s\<lparr>log := log s @ failed_attempt cmd (polled s 0) @
                attempt_events cmd\<rparr>))"
      using retry_loop_step [OF b1, of "Suc 0" cmd "Some (polled s 0)"]
      by (simp only: p1 s12)
    show ?thesis
    proof (cases "polled s 1 = 1")
      case True
      then show ?thesis using v0 by (simp only: l1 l2) simp
    next
      case v1: False
      then have b2: "\<not> bit (polled ?s2 0) 7"
        using assms v0 by (simp only: p2) (simp add: no_busy_poll_def)
      have l3: "retry_loop (Suc 0) cmd (Some (polled s 1)) ?s2 =
          (if polled s 2 \<noteq> 1
           then Some (Some (polled s 2), s\<lparr>log := log s @ failed_attempt cmd (polled s 0) @
                  failed_attempt cmd (polled s 1) @ failed_attempt cmd (polled s 2)\<rparr>)
           else Some (Some 1, s\<lparr>log := log s @ failed_attempt cmd (polled s 0) @
                  failed_attempt cmd (polled s 1) @ attempt_events cmd\<rparr>))"
        using retry_loop_step [OF b2, of 0 cmd "Some (polled s 1)"]
        by (simp only: p2 s23 retry_loop.simps(1))
      show ?thesis using v0 v1 by (simp only: l1 l2 l3) simp
    qed
  qed
qed

text \<open>And when some status read of the loop is busy, the loop never returns.\<close>

lemma retry_loop_blocked:
  assumes "\<not> no_busy_poll s"
  shows "retry_loop MAX_TRY cmd None s = None"
proof (cases "bit (polled s 0) 7")
  case True
  then show ?thesis
    unfolding MAX_TRY_def numeral_3_eq_3 by (rule retry_loop_busy)
next
  case b0: False
  let ?s1 = "s\<lparr>log := log s @ failed_attempt cmd (polled s 0)\<rparr>"
  let ?s2 = "s\<lparr>log := log s @ failed_attempt cmd (polled s 0) @ failed_attempt cmd (polled s 1)\<rparr>"
  have p1: "polled ?s1 0 = polled s 1" and p2: "polled ?s2 0 = polled s 2"
    by (simp_all add: polled_log failed_attempt_def attempt_events_def numeral_2_eq_2)
  have s12: "?s1\<lparr>log := log ?s1 @ evs\<rparr> =
      s\<lparr>log := log s @ failed_attempt cmd (polled s 0) @ evs\<rparr>" for evs
    by simp
  from b0 assms have v0: "polled s 0 \<noteq> 1"
    and rest: "bit (polled s 1) 7 \<or> (polled s 1 \<noteq> 1 \<and> bit (polled s 2) 7)"
    by (auto simp: no_busy_poll_def)
  have l1: "retry_loop MAX_TRY cmd None s =
      retry_loop (Suc (Suc 0)) cmd (Some (polled s 0)) ?s1"
    unfolding MAX_TRY_def numeral_3_eq_3 using retry_loop_step [OF b0] v0 by simp
  show ?thesis
  proof (cases "bit (polled s 1) 7")
    case True
    then have "bit (polled ?s1 0) 7" by (simp add: p1)
    then show ?thesis unfolding l1 by (rule retry_loop_busy)
  next
    case b1: False
    with rest have v1: "polled s 1 \<noteq> 1" and b2: "bit (polled s 2) 7" by auto
    from b1 have b1': "\<not> bit (polled ?s1 0) 7" by (simp add: p1)
    have l2: "retry_loop (Suc (Suc 0)) cmd (Some (polled s 0)) ?s1 =
        retry_loop (Suc 0) cmd (Some (polled s 1)) ?s2"
      using retry_loop_step [OF b1', of "Suc 0" cmd "Some (polled s 0)"] v1
      by (simp only: p1 s12 if_True simp_thms)
    from b2 have "bit (polled ?s2 0) 7" by (simp only: p2)
    then show ?thesis unfolding l1 l2 by (rule retry_loop_busy)
  qed
qed

lemma attempts_in_simps [simp]:
  "attempts_in [] = 0"
  "attempts_in (evs @ evs') = attempts_in evs + attempts_in evs'"
  "attempts_in (attempt_events cmd) = 1"
  "attempts_in (failed_attempt cmd v) = 1"
  by (simp_all add: attempts_in_def attempt_events_def failed_attempt_def)

lemma reported_failures_append [simp]:
  "reported_failures (evs @ evs') = reported_failures evs @ reported_failures evs'"
  by (induction evs rule: reported_failures.induct) simp_all

lemma reported_failures_simps [simp]:
  "reported_failures (attempt_events cmd) = []"
  "reported_failures (failed_attempt cmd v) = [v]"
  by (simp_all add: attempt_events_def failed_attempt_def)

lemma events_since_log [simp]: "events_since s (s\<lparr>log := log s @ evs\<rparr>) = evs"
  by (simp add: events_since_def)

text \<open>
  The loop started after some events \<open>pre\<close> of the same command that do not read
  the status register.
\<close>

lemma retry_loop_run:
  assumes "no_busy_poll s"
    and "count_list pre (Read CDB1_STATUS) = 0"
  shows "retry_loop MAX_TRY cmd None (s\<lparr>log := log s @ pre\<rparr>) =
     Some (Some (retry_status (polled s 0) (polled s 1) (polled s 2)),
           s\<lparr>log := log s @ pre @ retry_events cmd (polled s 0) (polled s 1) (polled s 2)\<rparr>)"
proof -
  let ?s = "s\<lparr>log := log s @ pre\<rparr>"
  have p: "polled ?s k = polled s k" for k
    using assms(2) by (simp add: polled_log)
  have nb: "no_busy_poll ?s"
    using assms(1) by (simp add: no_busy_poll_def p)
  show ?thesis
    unfolding retry_loop_3 [OF nb] p by (simp add: retry_events_def retry_status_def)
qed

lemma retry_loop_run0:
  assumes "no_busy_poll s"
  shows "retry_loop MAX_TRY cmd None s =
     Some (Some (retry_status (polled s 0) (polled s 1) (polled s 2)),
           s\<lparr>log := log s @ retry_events cmd (polled s 0) (polled s 1) (polled s 2)\<rparr>)"
  using retry_loop_run [OF assms, of "[]" cmd] by simp

lemma retry_events_facts [simp]:
  "attempts_in (retry_events cmd v0 v1 v2) = (if v0 = 1 then 1 else if v1 = 1 then 2 else 3)"
  "reported_failures (retry_events cmd v0 v1 v2) =
     (if v0 = 1 then [] else if v1 = 1 then [v0] else if v2 = 1 then [v0, v1] else [v0, v1, v2])"
  "f \<noteq> CDB1_STATUS \<Longrightarrow> count_list (retry_events cmd v0 v1 v2) (Read f) = 0"
  "filter is_ReadFlexible (retry_events cmd v0 v1 v2) = []"
  by (simp_all add: retry_events_def) (simp_all add: failed_attempt_def attempt_events_def)

lemma attempts_in_Cons [simp]:
  "attempts_in (e # evs) = (if is_opcode_write e then 1 else 0) + attempts_in evs"
  by (simp add: attempts_in_def)

lemma read_cdb_log:
  assumes "count_list evs (Read CDB_RPL_LENGTH) = 0" "count_list evs (Read CDB_RPL_CHKCODE) = 0"
    and "filter is_ReadFlexible evs = []"
  shows "read_cdb (s\<lparr>log := log s @ evs\<rparr>) =
     (fst (read_cdb s),
      s\<lparr>log := log s @ evs @
        [Read CDB_RPL_LENGTH, Read CDB_RPL_CHKCODE,
         ReadFlexible (LPLPAGE * PAGE_LENGTH + CDB_RPL_OFFSET) (fst (fst (read_cdb s)))]\<rparr>)"
  using assms by (simp add: read_cdb_def read_def read_flexible_def emit_def)

lemma summary_reply:
  assumes "no_busy_poll s"
  shows "summary s (return_read_cdb (retry_loop MAX_TRY cmd None s)) =
     Some (fst (read_cdb s),
           (if polled s 0 = 1 then 1 else if polled s 1 = 1 then 2 else 3),
           (if polled s 0 = 1 then [] else if polled s 1 = 1 then [polled s 0]
            else if polled s 2 = 1 then [polled s 0, polled s 1]
            else [polled s 0, polled s 1, polled s 2]))"
  by (simp add: retry_loop_run0 [OF assms] return_read_cdb_def read_cdb_log summary_def)

lemma summary_status:
  assumes "no_busy_poll s"
    and "count_list pre (Read CDB1_STATUS) = 0" "attempts_in pre = 0" "reported_failures pre = []"
  shows "summary s (return_status (retry_loop MAX_TRY cmd None (s\<lparr>log := log s @ pre\<rparr>))) =
     Some (Inr (if polled s 0 = 1 \<or> polled s 1 = 1 then 1 else polled s 2),
           (if polled s 0 = 1 then 1 else if polled s 1 = 1 then 2 else 3),
           (if polled s 0 = 1 then [] else if polled s 1 = 1 then [polled s 0]
            else if polled s 2 = 1 then [polled s 0, polled s 1]
            else [polled s 0, polled s 1, polled s 2]))"
  using assms(3,4)
  by (simp add: retry_loop_run [OF assms(1,2)] return_status_def summary_def retry_status_def)

lemma summary_status0:
  assumes "no_busy_poll s"
  shows "summary s (return_status (retry_loop MAX_TRY cmd None s)) =
     Some (Inr (if polled s 0 = 1 \<or> polled s 1 = 1 then 1 else polled s 2),
           (if polled s 0 = 1 then 1 else if polled s 1 = 1 then 2 else 3),
           (if polled s 0 = 1 then [] else if polled s 1 = 1 then [polled s 0]
            else if polled s 2 = 1 then [polled s 0, polled s 1]
            else [polled s 0, polled s 1, polled s 2]))"
  using summary_status [OF assms, of "[]" cmd] by simp

lemma summary_error [simp]: "summary s (Some (x, s)) = Some (x, 0, [])"
  by (simp add: summary_def events_since_def)

subsection \<open>Four bytes, most significant first\<close>

lemma be32_value:
  "(a div 2 ^ 24 mod 256) * 2 ^ 24 + (a div 2 ^ 16 mod 256) * 2 ^ 16
     + (a div 2 ^ 8 mod 256) * 2 ^ 8 + a mod 256 = (a::int) mod 2 ^ 32"
proof -
  have s: "x mod (256 * c) = x mod 256 + 256 * (x div 256 mod c)" if "0 \<le> c" for x c :: int
    using that by (simp add: zmod_zmult2_eq)
  define b0 b1 b2 b3 where "b0 = a mod 256" and "b1 = a div 2 ^ 8 mod 256"
    and "b2 = a div 2 ^ 16 mod 256" and "b3 = a div 2 ^ 24 mod 256"
  have d: "a div 256 mod 256 = b1" "a div 256 div 256 mod 256 = b2"
      "a div 256 div 256 div 256 mod 256 = b3"
  proof -
    have e16: "a div 256 div 256 = a div 65536"
      using zdiv_zmult2_eq [of 256 a 256] by simp
    have e24: "a div 65536 div 256 = a div 16777216"
      using zdiv_zmult2_eq [of 256 a 65536] by simp
    show "a div 256 mod 256 = b1" by (simp add: b1_def)
    show "a div 256 div 256 mod 256 = b2" by (simp add: b2_def e16)
    show "a div 256 div 256 div 256 mod 256 = b3" by (simp add: b3_def e16 e24)
  qed
  have "a mod 2 ^ 32 = a mod (256 * (256 * (256 * 256)))" by simp
  also have "\<dots> = a mod 256 + 256 * ((a div 256) mod (256 * (256 * 256)))"
    by (rule s) simp
  also have "(a div 256) mod (256 * (256 * 256)) =
      a div 256 mod 256 + 256 * (a div 256 div 256 mod (256 * 256))"
    by (rule s) simp
  also have "a div 256 div 256 mod (256 * 256) =
      a div 256 div 256 mod 256 + 256 * (a div 256 div 256 div 256 mod 256)"
    by (rule s) simp
  finally have "a mod 2 ^ 32 = b0 + 256 * (b1 + 256 * (b2 + 256 * b3))"
    by (simp only: d b0_def [symmetric])
  also have "\<dots> = b3 * 2 ^ 24 + b2 * 2 ^ 16 + b1 * 2 ^ 8 + b0"
    by simp
  finally show ?thesis
    by (simp only: b0_def b1_def b2_def b3_def)
qed

lemma be32_Cons: "be32 [b3, b2, b1, b0] = b3 * 2 ^ 24 + b2 * 2 ^ 16 + b1 * 2 ^ 8 + b0"
  by (simp add: be32_def)

lemma be32_bytes:
  "be32 [a div 2 ^ 24 mod 256, a div 2 ^ 16 mod 256, a div 2 ^ 8 mod 256, a mod 256]
     = a mod 2 ^ 32"
  by (simp only: be32_Cons be32_value)

subsection \<open>The frames that are built from arguments\<close>

lemma cmd0103h_frame_eq:
  "cmd0103h_frame addr data =
     (let hdr = [0x01, 0x03, 0x00, 0x00, (int (length data) + 4) mod 256, 0x00, 0x00, 0x00,
                 addr div 2 ^ 24 mod 256, addr div 2 ^ 16 mod 256, addr div 2 ^ 8 mod 256,
                 addr mod 256]
      in (hdr @ ljust data 116 0)[5 := cdb_chkcode (hdr @ ljust data 116 0)])"
  by (simp add: cmd0103h_frame_def set_chkcode_def INIT_OFFSET_def and_ff drop_bit_eq_div Let_def)

lemma cmd0103h_frame_parts:
  "length (cmd0103h_frame addr data) = 12 + max 116 (length data)"
  "cmd0103h_frame addr data ! 4 = (int (length data) + 4) mod 256"
  "take 4 (drop 8 (cmd0103h_frame addr data)) =
     [addr div 2 ^ 24 mod 256, addr div 2 ^ 16 mod 256, addr div 2 ^ 8 mod 256, addr mod 256]"
  "drop 12 (cmd0103h_frame addr data) = data @ replicate (116 - length data) 0"
  "take 2 (cmd0103h_frame addr data) = [0x01, 0x03]"
  by (simp_all add: cmd0103h_frame_eq ljust_def Let_def drop_update_cancel)

lemma cmd0101h_frame_eq:
  "cmd0101h_frame startLPLsize header imagesize =
     (if startLPLsize + 8 < 0 \<or> 255 < startLPLsize + 8 then Inl ValueError
      else
        let hdr = [0x01, 0x01, 0x00, 0x00, startLPLsize + 8, 0x00, 0x00, 0x00,
                   imagesize div 2 ^ 24 mod 256, imagesize div 2 ^ 16 mod 256,
                   imagesize div 2 ^ 8 mod 256, imagesize mod 256, 0x00, 0x00, 0x00, 0x00]
        in Inr ((hdr @ header)[5 := cdb_chkcode (hdr @ header)]))"
  by (simp add: cmd0101h_frame_def set_chkcode_def INIT_OFFSET_def and_ff drop_bit_eq_div Let_def)

section \<open>The check code\<close>

text \<open>
  C1 (amended). \<open>cdb_chkcode\<close> returns \<open>0xff - (sum(cmd) mod 256)\<close>, the one's
  complement of the byte sum. For every frame of more than 5 bytes whose check-code
  slot (index 5, byte 133) is still zero, the frame with the check code stored into the
  slot has a byte sum that is 255 modulo 256, not 0.
\<close>

theorem chkcode_frame_sum_255:
  assumes "5 < length cmd" and "cmd ! 5 = 0"
  shows "cdb_chkcode cmd = 0xff - sum_list cmd mod 256
       \<and> sum_list (set_chkcode cmd) mod 256 = 255"
proof -
  have "sum_list (set_chkcode cmd) = sum_list cmd + (255 - sum_list cmd mod 256)"
    using assms by (simp add: set_chkcode_def INIT_OFFSET_def sum_list_upd cdb_chkcode_eq)
  also have "\<dots> = 255 + 256 * (sum_list cmd div 256)"
    by (simp add: minus_mod_eq_mult_div [symmetric])
  finally show ?thesis
    by (simp add: cdb_chkcode_eq)
qed

theorem chkcode_frame_sum_255_witness:
  "5 < length [0, 0, 0, 0, 2, 0, 0, 0, 0, 0x10 :: int]
   \<and> [0, 0, 0, 0, 2, 0, 0, 0, 0, 0x10 :: int] ! 5 = 0
   \<and> cdb_chkcode [0, 0, 0, 0, 2, 0, 0, 0, 0, 0x10] = 237
   \<and> sum_list (set_chkcode [0, 0, 0, 0, 2, 0, 0, 0, 0, 0x10]) mod 256 = 255"
  using chkcode_frame_sum_255 [of "[0, 0, 0, 0, 2, 0, 0, 0, 0, 0x10]"] by simp

text \<open>
  The frame of \<open>cmd0000h\<close> refutes the sum 0 of the specification: its bytes do not sum
  to 0 modulo 256.
\<close>

theorem chkcode_frame_sum_counterexample: "sum_list cmd0000h_frame mod 256 \<noteq> 0"
  by (simp add: cmd0000h_frame_def set_chkcode_def INIT_OFFSET_def cdb_chkcode_eq)

section \<open>Waiting for the status\<close>

text \<open>
  C2 (the code departs from the specification). \<open>cdb1_chkstatus\<close> reads the status register
  once. When that read has the busy bit (bit 7) set, the loop sleeps and tests the same
  value again and again: the call never returns, whatever the register would answer
  to a later read.
\<close>

theorem cdb1_chkstatus_busy_never_returns:
  "bit (polled s 0) 7 \<Longrightarrow> cdb1_chkstatus s = None"
  by (simp add: cdb1_chkstatus_eq)

theorem cdb1_chkstatus_busy_never_returns_witness:
  "bit (polled (example_module (\<lambda>k. if k = 0 then 0x81 else 0x01) 0) 0) 7
   \<and> \<not> bit (polled (example_module (\<lambda>k. if k = 0 then 0x81 else 0x01) 0) 1) 7
   \<and> cdb1_chkstatus (example_module (\<lambda>k. if k = 0 then 0x81 else 0x01) 0) = None"
  using cdb1_chkstatus_busy_never_returns
          [of "example_module (\<lambda>k. if k = 0 then 0x81 else 0x01) 0"]
  by (simp add: polled_def example_module_def)

section \<open>Writing a command\<close>

text \<open>
  C3. For every frame of at least 2 bytes, \<open>write_cdb\<close> performs exactly two writes:
  first the payload part \<open>cmd[2:]\<close>, with its length, to byte 130 of page \<open>0x9f\<close>, then
  the two opcode bytes \<open>cmd[:2]\<close> to byte 128 of that page. The opcode write is the
  last event, so it never precedes the payload write.
\<close>

theorem write_cdb_payload_before_opcode:
  assumes "2 \<le> length cmd"
  shows "log (write_cdb cmd s) = log s @
           [WriteFlexible (0x9f * 128 + 130) (int (length (drop 2 cmd))) (drop 2 cmd),
            WriteFlexible (0x9f * 128 + 128) 2 (take 2 cmd)]
       \<and> length (take 2 cmd) = 2
       \<and> take 2 cmd @ drop 2 cmd = cmd"
  using assms by (simp add: write_cdb_eq)

theorem write_cdb_payload_before_opcode_witness:
  "2 \<le> length [0x01, 0x02, 0, 0, 0, 0xfc, 0, 0 :: int]
   \<and> log (write_cdb [0x01, 0x02, 0, 0, 0, 0xfc, 0, 0] (example_module (\<lambda>k. 1) 0)) =
       [WriteFlexible 20482 6 [0, 0, 0, 0xfc, 0, 0], WriteFlexible 20480 2 [0x01, 0x02]]"
  using write_cdb_payload_before_opcode
          [of "[0x01, 0x02, 0, 0, 0, 0xfc, 0, 0]" "example_module (\<lambda>k. 1) 0"]
  by (simp add: example_module_def)

section \<open>Fault flags\<close>

text \<open>
  C5. \<open>cdb1_chkflags\<close> reads the fault flags once. If the datapath firmware fault
  (bit 2) or the module firmware fault (bit 1) is set, the call fails at once with the
  \<open>AssertionError\<close> of its \<open>assert\<close>, whatever the command-complete bit (bit 6) is;
  if both are clear it does not fail and returns whether the command is incomplete.
\<close>

theorem cdb1_chkflags_fault:
  "(bit (fault_flags s) 2 \<or> bit (fault_flags s) 1
      \<longrightarrow> fst (cdb1_chkflags s) = Inl AssertionError)
   \<and> (\<not> bit (fault_flags s) 2 \<and> \<not> bit (fault_flags s) 1
      \<longrightarrow> fst (cdb1_chkflags s) = Inr (\<not> bit (fault_flags s) 6))
   \<and> log (snd (cdb1_chkflags s)) = log s @ [Read MODULE_FIRMWARE_FAULT_INFO]"
  by (simp add: cdb1_chkflags_def read_def fault_flags_def emit_def and_1_bit Let_def)

theorem cdb1_chkflags_fault_witness:
  "bit (fault_flags (example_module (\<lambda>k. 1) 0x44)) 2
   \<and> bit (fault_flags (example_module (\<lambda>k. 1) 0x44)) 6
   \<and> fst (cdb1_chkflags (example_module (\<lambda>k. 1) 0x44)) = Inl AssertionError
   \<and> \<not> bit (fault_flags (example_module (\<lambda>k. 1) 0x40)) 2
   \<and> \<not> bit (fault_flags (example_module (\<lambda>k. 1) 0x40)) 1
   \<and> fst (cdb1_chkflags (example_module (\<lambda>k. 1) 0x40)) = Inr False"
  using cdb1_chkflags_fault [of "example_module (\<lambda>k. 1) 0x44"]
        cdb1_chkflags_fault [of "example_module (\<lambda>k. 1) 0x40"]
  by (simp add: fault_flags_def example_module_def)

section \<open>The frames of the download commands\<close>

lemma retry_loop_first_attempt:
  assumes "no_busy_poll s"
  shows "\<exists>st s'. retry_loop MAX_TRY cmd None s = Some (Some st, s')
           \<and> take 4 (events_since s s') = attempt_events cmd"
  by (simp add: retry_loop_3 [OF assms] failed_attempt_def attempt_events_def)

lemmas be32_bytes_num = be32_bytes [simplified]

text \<open>
  C7 (amended). For every \<open>startLPLsize\<close> with \<open>0 \<le> startLPLsize + 8 \<le> 255\<close>, every
  header and every \<open>imagesize\<close>, \<open>cmd0101h\<close> builds a frame of 16 bytes followed by the
  header, whose byte at offset 132 (index 4) is \<open>startLPLsize + 8\<close>, so 16 for a header
  size of 8, and whose bytes at offsets 136 to 139 (indices 8 to 11) are the four
  big-endian bytes of \<open>imagesize mod 2^32\<close>, which is \<open>imagesize\<close> itself when
  \<open>0 \<le> imagesize < 2^32\<close>. For every \<open>startLPLsize\<close> outside that range no frame is
  built: the command prints the image size, raises \<open>ValueError\<close> and has written
  nothing.
\<close>

theorem cmd0101h_frame_fields:
  "(0 \<le> startLPLsize + 8 \<and> startLPLsize + 8 \<le> 255 \<longrightarrow>
      (\<exists>frame. cmd0101h_frame startLPLsize header imagesize = Inr frame
         \<and> length frame = 16 + length header
         \<and> frame ! 4 = startLPLsize + 8
         \<and> take 4 (drop 8 frame) =
             [imagesize div 2 ^ 24 mod 256, imagesize div 2 ^ 16 mod 256,
              imagesize div 2 ^ 8 mod 256, imagesize mod 256]
         \<and> be32 (take 4 (drop 8 frame)) = imagesize mod 2 ^ 32
         \<and> drop 16 frame = header))
   \<and> (startLPLsize + 8 < 0 \<or> 255 < startLPLsize + 8 \<longrightarrow>
        cmd0101h_frame startLPLsize header imagesize = Inl ValueError
        \<and> cmd0101h startLPLsize header imagesize s =
            Some (Inl ValueError, s\<lparr>log := log s @ [Print (ImageSize imagesize)]\<rparr>))"
proof (intro conjI impI)
  assume "0 \<le> startLPLsize + 8 \<and> startLPLsize + 8 \<le> 255"
  then show "\<exists>frame. cmd0101h_frame startLPLsize header imagesize = Inr frame
         \<and> length frame = 16 + length header
         \<and> frame ! 4 = startLPLsize + 8
         \<and> take 4 (drop 8 frame) =
             [imagesize div 2 ^ 24 mod 256, imagesize div 2 ^ 16 mod 256,
              imagesize div 2 ^ 8 mod 256, imagesize mod 256]
         \<and> be32 (take 4 (drop 8 frame)) = imagesize mod 2 ^ 32
         \<and> drop 16 frame = header"
    by (simp add: cmd0101h_frame_eq Let_def be32_bytes_num)
next
  assume out: "startLPLsize + 8 < 0 \<or> 255 < startLPLsize + 8"
  then show fr: "cmd0101h_frame startLPLsize header imagesize = Inl ValueError"
    by (simp add: cmd0101h_frame_eq)
  show "cmd0101h startLPLsize header imagesize s =
      Some (Inl ValueError, s\<lparr>log := log s @ [Print (ImageSize imagesize)]\<rparr>)"
    by (simp add: cmd0101h_def fr print_def emit_def)
qed

theorem cmd0101h_frame_fields_witness:
  "(0::int) \<le> 8 + 8 \<and> (8::int) + 8 \<le> 255
   \<and> (\<exists>frame. cmd0101h_frame 8 [1, 2, 3, 4, 5, 6, 7, 8] 4096 = Inr frame
        \<and> frame ! 4 = 16 \<and> take 4 (drop 8 frame) = [0, 0, 16, 0]
        \<and> be32 (take 4 (drop 8 frame)) = 4096)
   \<and> (255::int) < 248 + 8
   \<and> cmd0101h_frame 248 [1, 2, 3, 4, 5, 6, 7, 8] 4096 = Inl ValueError
   \<and> log (snd (the (cmd0101h 248 [1, 2, 3, 4, 5, 6, 7, 8] 4096 (example_module (\<lambda>k. 1) 0)))) =
        [Print (ImageSize 4096)]"
  using cmd0101h_frame_fields [of 8 "[1, 2, 3, 4, 5, 6, 7, 8]" 4096]
        cmd0101h_frame_fields [of 248 "[1, 2, 3, 4, 5, 6, 7, 8]" 4096 "example_module (\<lambda>k. 1) 0"]
  by (auto simp: example_module_def)

text \<open>
  Outside that range no frame is built: \<open>startLPLsize + 8\<close> is stored into the
  bytearray unmasked, and for \<open>startLPLsize = 248\<close> the value 256 is not a byte. The
  command raises \<open>ValueError\<close> after printing the image size and before any write.
  And an \<open>imagesize\<close> that does not fit into 32 bits loses its high bits: for
  \<open>imagesize = 2^32\<close> the four bytes are zero.
\<close>

theorem cmd0101h_frame_fields_counterexample:
  "cmd0101h_frame 248 [] 4096 = Inl ValueError
   \<and> cmd0101h 248 [] 4096 (example_module (\<lambda>k. 1) 0) =
       Some (Inl ValueError, (example_module (\<lambda>k. 1) 0)\<lparr>log := [Print (ImageSize 4096)]\<rparr>)
   \<and> map_sum id (\<lambda>frame. take 4 (drop 8 frame)) (cmd0101h_frame 8 [] (2 ^ 32)) =
       Inr [0, 0, 0, 0]"
  by (simp add: cmd0101h_def cmd0101h_frame_eq print_def emit_def example_module_def)

text \<open>
  C8. For every data of at most 116 bytes and every address \<open>0 \<le> addr < 2^32\<close>, the
  frame of \<open>cmd0103h\<close> has 128 bytes; its byte at offset 132 (index 4) is
  \<open>len(data) + 4\<close>; its bytes at offsets 136 to 139 (indices 8 to 11) are the address,
  most significant byte first; and the 116 bytes from offset 140 (index 12) on are the
  data followed by zeros.
\<close>

theorem cmd0103h_frame_fields:
  assumes "length data \<le> 116" and "0 \<le> addr" and "addr < 2 ^ 32"
  shows "length (cmd0103h_frame addr data) = 128
       \<and> cmd0103h_frame addr data ! 4 = int (length data) + 4
       \<and> take 4 (drop 8 (cmd0103h_frame addr data)) =
           [addr div 2 ^ 24 mod 256, addr div 2 ^ 16 mod 256, addr div 2 ^ 8 mod 256, addr mod 256]
       \<and> be32 (take 4 (drop 8 (cmd0103h_frame addr data))) = addr
       \<and> drop 12 (cmd0103h_frame addr data) = data @ replicate (116 - length data) 0
       \<and> length (drop 12 (cmd0103h_frame addr data)) = 116"
proof -
  have "addr mod 2 ^ 32 = addr"
    using assms(2,3) by (rule mod_pos_pos_trivial)
  then have "be32 (take 4 (drop 8 (cmd0103h_frame addr data))) = addr"
    by (simp only: cmd0103h_frame_parts be32_bytes)
  moreover have "(int (length data) + 4) mod 256 = int (length data) + 4"
    using assms(1) by simp
  moreover have "12 + max 116 (length data) = 128" "length data + (116 - length data) = 116"
    using assms(1) by simp_all
  ultimately show ?thesis
    by (simp only: cmd0103h_frame_parts length_append length_replicate simp_thms)
qed

theorem cmd0103h_frame_fields_witness:
  "length [0xde, 0xad, 0xbe, 0xef :: int] \<le> 116 \<and> (0::int) \<le> 0x12345678 \<and> (0x12345678::int) < 2 ^ 32
   \<and> cmd0103h_frame 0x12345678 [0xde, 0xad, 0xbe, 0xef] ! 4 = 8
   \<and> take 4 (drop 8 (cmd0103h_frame 0x12345678 [0xde, 0xad, 0xbe, 0xef])) = [0x12, 0x34, 0x56, 0x78]
   \<and> drop 12 (cmd0103h_frame 0x12345678 [0xde, 0xad, 0xbe, 0xef]) =
        [0xde, 0xad, 0xbe, 0xef] @ replicate 112 0"
  using cmd0103h_frame_fields [of "[0xde, 0xad, 0xbe, 0xef]" "0x12345678"] by simp

text \<open>
  C6 (amended). \<open>cmd0103h\<close> has no length check. For every payload of more than 116
  bytes it builds a frame of the 12 header bytes followed by the whole payload, neither
  padded nor cut, with \<open>(len(data) + 4) mod 256\<close> as the declared length; and when the
  status reads are not busy, the command returns and the first two events of its run
  are the writes of that frame to the module.
\<close>

theorem cmd0103h_long_payload_is_written:
  assumes "116 < length data"
    and "no_busy_poll s"
  shows "length (cmd0103h_frame addr data) = 12 + length data
       \<and> drop 12 (cmd0103h_frame addr data) = data
       \<and> cmd0103h_frame addr data ! 4 = (int (length data) + 4) mod 256
       \<and> (\<exists>st s'. cmd0103h addr data s = Some (Inr st, s')
            \<and> take 2 (events_since s s') =
                [WriteFlexible 20482 (int (length data) + 10) (drop 2 (cmd0103h_frame addr data)),
                 WriteFlexible 20480 2 [0x01, 0x03]])"
proof -
  obtain st s' where r: "retry_loop MAX_TRY (cmd0103h_frame addr data) None s = Some (Some st, s')"
    and e: "take 4 (events_since s s') = attempt_events (cmd0103h_frame addr data)"
    using retry_loop_first_attempt [OF assms(2)] by blast
  have "take 2 (take 4 (events_since s s')) = take 2 (attempt_events (cmd0103h_frame addr data))"
    by (simp only: e)
  then have "take 2 (events_since s s') =
      [WriteFlexible 20482 (int (length data) + 10) (drop 2 (cmd0103h_frame addr data)),
       WriteFlexible 20480 2 [0x01, 0x03]]"
    using assms(1) by (simp add: attempt_events_def cmd0103h_frame_parts max_def)
  with r have "\<exists>st s'. cmd0103h addr data s = Some (Inr st, s')
            \<and> take 2 (events_since s s') =
                [WriteFlexible 20482 (int (length data) + 10) (drop 2 (cmd0103h_frame addr data)),
                 WriteFlexible 20480 2 [0x01, 0x03]]"
    by (simp add: cmd0103h_def return_status_def)
  moreover have "12 + max 116 (length data) = 12 + length data" "116 - length data = 0"
    using assms(1) by simp_all
  ultimately show ?thesis
    by (simp only: cmd0103h_frame_parts replicate_0 append_Nil2 simp_thms)
qed

theorem cmd0103h_long_payload_is_written_witness:
  "116 < length (replicate 117 (0::int))
   \<and> no_busy_poll (example_module (\<lambda>k. 1) 0)
   \<and> drop 12 (cmd0103h_frame 0 (replicate 117 0)) = replicate 117 0
   \<and> cmd0103h_frame 0 (replicate 117 0) ! 4 = 121
   \<and> (\<exists>st s'. cmd0103h 0 (replicate 117 0) (example_module (\<lambda>k. 1) 0) = Some (Inr st, s')
        \<and> take 2 (events_since (example_module (\<lambda>k. 1) 0) s') =
            [WriteFlexible 20482 127 (drop 2 (cmd0103h_frame 0 (replicate 117 0))),
             WriteFlexible 20480 2 [1, 3]])"
  using cmd0103h_long_payload_is_written [of "replicate 117 0" "example_module (\<lambda>k. 1) 0" 0]
  by (simp add: no_busy_poll_def polled_def example_module_def)

text \<open>
  The rejection that the specification states does not happen on 117 zero bytes: the
  command writes the frame with all 117 payload bytes and returns the status 1.
\<close>

lemma cmd0103h_frame_117:
  "cmd0103h_frame 0 (replicate 117 0) = [1, 3, 0, 0, 121, 130, 0, 0, 0, 0, 0, 0] @ replicate 117 0"
  by (simp add: cmd0103h_frame_eq ljust_def cdb_chkcode_eq sum_list_replicate)

theorem cmd0103h_long_payload_counterexample:
  "cmd0103h 0 (replicate 117 0) (example_module (\<lambda>k. 1) 0) =
     Some (Inr 1, (example_module (\<lambda>k. 1) 0)\<lparr>log :=
       [WriteFlexible 20482 127 ([0, 0, 121, 130, 0, 0, 0, 0, 0, 0] @ replicate 117 0),
        WriteFlexible 20480 2 [1, 3], Sleep 2, Read CDB1_STATUS]\<rparr>)"
proof -
  let ?m = "example_module (\<lambda>k. 1) 0"
  have p: "polled ?m k = 1" for k
    by (simp add: polled_def example_module_def)
  have "retry_loop MAX_TRY (cmd0103h_frame 0 (replicate 117 0)) None ?m =
      Some (Some 1, ?m\<lparr>log := log ?m @ attempt_events (cmd0103h_frame 0 (replicate 117 0))\<rparr>)"
    by (subst retry_loop_3) (simp_all add: no_busy_poll_def p)
  then show ?thesis
    by (simp add: cmd0103h_def return_status_def attempt_events_def cmd0103h_frame_117 example_module_def)
qed

section \<open>Staging the extended payload\<close>

lemma fold_emit: "fold (\<lambda>x. emit (f x)) xs s = s\<lparr>log := log s @ map f xs\<rparr>"
  by (induction xs arbitrary: s) (simp_all add: emit_def)

lemma write_page_eq:
  "i < 16 \<Longrightarrow> write_page data i =
     emit (WriteFlexible ((0xA0 + int i) * 128 + 128) 128 (slice data (128 * i) (128 * (i + 1))))"
  by (rule ext) (simp add: write_page_def write_flexible_def PAGE_LENGTH_def INIT_OFFSET_def
      nat_mult_distrib nat_add_distrib Let_def add.commute)

lemma fold_write_page:
  "fold (write_page data) [0..<16] s = s\<lparr>log := log s @
     map (\<lambda>i. WriteFlexible ((0xA0 + int i) * 128 + 128) 128
                 (slice data (128 * i) (128 * (i + 1)))) [0..<16]\<rparr>"
proof -
  have "fold (write_page data) [0..<16] s =
      fold (\<lambda>i. emit (WriteFlexible ((0xA0 + int i) * 128 + 128) 128
                 (slice data (128 * i) (128 * (i + 1))))) [0..<16] s"
    by (rule fold_cong) (simp_all add: write_page_eq)
  then show ?thesis by (simp only: fold_emit)
qed

lemma cmd0104h_stage_fixed:
  "cmd0104h_stage data False writelength s = Inr (s\<lparr>log := log s @
     map (\<lambda>i. WriteFlexible ((0xA0 + int i) * 128 + 128) 128
                 (slice data (128 * i) (128 * (i + 1)))) [0..<16]\<rparr>)"
  by (simp add: cmd0104h_stage_def PAGE_LENGTH_def fold_write_page del: upt_Suc)




section \<open>What every command does with the polled statuses\<close>

text \<open>
  The staging writes of \<open>cmd0104h\<close> go to page \<open>0xA0\<close> and above, never to the opcode
  offset, and the staging reads nothing.
\<close>

lemma write_section_eq:
  "write_section data wl =
     (\<lambda>off. emit (if off + wl \<le> 2048
        then WriteFlexible (20608 + off) wl (slice data (nat off) (nat (off + wl)))
        else WriteFlexible (20608 + off) (int (length (drop (nat off) data)))
               (drop (nat off) data)))"
  by (rule ext)+
     (simp add: write_section_def write_flexible_def PAGE_LENGTH_def INIT_OFFSET_def Let_def)

lemma staging_quiet:
  "\<forall>e\<in>set evs. \<exists>off n d. e = WriteFlexible off n d \<and> off \<noteq> 20480 \<Longrightarrow>
   attempts_in evs = 0 \<and> reported_failures evs = [] \<and> count_list evs (Read f) = 0"
  by (induction evs) auto

lemma range_step_nonneg: "x \<in> set (range_step stop step) \<Longrightarrow> 0 \<le> x"
  by (auto simp: range_step_def split: if_splits)

lemma cmd0104h_stage_events:
  "\<exists>evs. cmd0104h_stage data ap wl s =
           (if ap \<and> wl = 0 then Inl ZeroDivisionError else Inr (s\<lparr>log := log s @ evs\<rparr>))
       \<and> (\<forall>e\<in>set evs. \<exists>off n d. e = WriteFlexible off n d \<and> off \<noteq> 20480)"
proof (cases ap)
  case False
  let ?pages = "map (\<lambda>i. WriteFlexible ((0xA0 + int i) * 128 + 128) 128
                       (slice data (128 * i) (128 * (i + 1)))) [0..<16]"
  have "\<forall>e\<in>set ?pages. \<exists>off n d. e = WriteFlexible off n d \<and> off \<noteq> 20480"
    by auto
  then show ?thesis
    using False by (intro exI [of _ ?pages]) (simp only: cmd0104h_stage_fixed simp_thms if_False)
next
  case True
  let ?ev = "\<lambda>off. if off + wl \<le> 2048
        then WriteFlexible (20608 + off) wl (slice data (nat off) (nat (off + wl)))
        else WriteFlexible (20608 + off) (int (length (drop (nat off) data)))
               (drop (nat off) data)"
  have "cmd0104h_stage data ap wl s =
      (if ap \<and> wl = 0 then Inl ZeroDivisionError
       else Inr (s\<lparr>log := log s @ map ?ev (range_step 2048 wl)\<rparr>))"
    using True by (simp add: cmd0104h_stage_def write_section_eq fold_emit)
  moreover have "\<forall>e\<in>set (map ?ev (range_step 2048 wl)).
      \<exists>off n d. e = WriteFlexible off n d \<and> off \<noteq> 20480"
    by (auto dest: range_step_nonneg)
  ultimately show ?thesis
    by (intro exI [of _ "map ?ev (range_step 2048 wl)"] conjI)
qed

lemma struct_pack_L_eq:
  "struct_pack_L v = (if v < 0 \<or> 2 ^ 32 \<le> v then Inl StructError
     else Inr [v div 2 ^ 24 mod 256, v div 2 ^ 16 mod 256, v div 2 ^ 8 mod 256, v mod 256])"
  by (simp add: struct_pack_L_def)

lemma summary_cmd0104h:
  assumes "no_busy_poll s"
  shows "summary s (cmd0104h addr data ap wl s) =
     (if ap \<and> wl = 0 then Some (Inl ZeroDivisionError, 0, [])
      else if addr < 0 \<or> 2 ^ 32 \<le> addr then Some (Inl StructError, 0, [])
      else Some (Inr (if polled s 0 = 1 \<or> polled s 1 = 1 then 1 else polled s 2),
           (if polled s 0 = 1 then 1 else if polled s 1 = 1 then 2 else 3),
           (if polled s 0 = 1 then [] else if polled s 1 = 1 then [polled s 0]
            else if polled s 2 = 1 then [polled s 0, polled s 1]
            else [polled s 0, polled s 1, polled s 2])))"
proof -
  obtain evs where st: "cmd0104h_stage data ap wl s =
           (if ap \<and> wl = 0 then Inl ZeroDivisionError else Inr (s\<lparr>log := log s @ evs\<rparr>))"
    and q: "\<forall>e\<in>set evs. \<exists>off n d. e = WriteFlexible off n d \<and> off \<noteq> 20480"
    using cmd0104h_stage_events by blast
  have q': "attempts_in (evs @ [Print WriteTime]) = 0"
      "reported_failures (evs @ [Print WriteTime]) = []"
      "count_list (evs @ [Print WriteTime]) (Read CDB1_STATUS) = 0"
    using staging_quiet [OF q, of CDB1_STATUS] by simp_all
  have pr: "print WriteTime (s\<lparr>log := log s @ evs\<rparr>) = s\<lparr>log := log s @ (evs @ [Print WriteTime])\<rparr>"
    by (simp add: print_def emit_def)
  have er: "summary s (Some (x, s\<lparr>log := log s @ (evs @ [Print WriteTime])\<rparr>)) = Some (x, 0, [])" for x
    using q' by (simp only: summary_def option.case prod.case events_since_log)
  show ?thesis
  proof (cases "ap \<and> wl = 0")
    case True
    have st': "cmd0104h_stage data ap wl s = Inl ZeroDivisionError"
      unfolding st using True by simp
    show ?thesis
      unfolding cmd0104h_def st' using True by simp
  next
    case False
    note nz = this
    show ?thesis
    proof (cases "addr < 0 \<or> 2 ^ 32 \<le> addr")
      case True
      have st': "cmd0104h_stage data ap wl s = Inr (s\<lparr>log := log s @ evs\<rparr>)"
        unfolding st using nz by simp
      have pk: "struct_pack_L addr = Inl StructError"
        unfolding struct_pack_L_eq using True by simp
      show ?thesis
        unfolding cmd0104h_def st' pr pk Let_def sum.case er using nz True by simp
    next
      case False
      have st': "cmd0104h_stage data ap wl s = Inr (s\<lparr>log := log s @ evs\<rparr>)"
        unfolding st using nz by simp
      obtain addr_byte where pk: "struct_pack_L addr = Inr addr_byte"
        unfolding struct_pack_L_eq using False by simp
      show ?thesis
        unfolding cmd0104h_def st' pr pk Let_def sum.case summary_status [OF assms q'(3,1,2)]
        using nz False by simp
    qed
  qed
qed


lemma summary_cmd0101h:
  assumes "no_busy_poll s"
  shows "summary s (cmd0101h startLPLsize header imagesize s) =
     (if startLPLsize + 8 < 0 \<or> 255 < startLPLsize + 8 then Some (Inl ValueError, 0, [])
      else Some (Inr (if polled s 0 = 1 \<or> polled s 1 = 1 then 1 else polled s 2),
           (if polled s 0 = 1 then 1 else if polled s 1 = 1 then 2 else 3),
           (if polled s 0 = 1 then [] else if polled s 1 = 1 then [polled s 0]
            else if polled s 2 = 1 then [polled s 0, polled s 1]
            else [polled s 0, polled s 1, polled s 2])))"
proof -
  have pr: "print (ImageSize imagesize) s = s\<lparr>log := log s @ [Print (ImageSize imagesize)]\<rparr>"
    by (simp add: print_def emit_def)
  have er: "summary s (Some (x, s\<lparr>log := log s @ [Print (ImageSize imagesize)]\<rparr>)) = Some (x, 0, [])"
    for x :: "error + int"
    by (simp add: summary_def)
  have q: "count_list [Print (ImageSize imagesize)] (Read CDB1_STATUS) = 0"
    "attempts_in [Print (ImageSize imagesize)] = 0"
    "reported_failures [Print (ImageSize imagesize)] = []"
    by simp_all
  show ?thesis
  proof (cases "startLPLsize + 8 < 0 \<or> 255 < startLPLsize + 8")
    case True
    then have fr: "cmd0101h_frame startLPLsize header imagesize = Inl ValueError"
      by (simp add: cmd0101h_frame_eq)
    show ?thesis
      unfolding cmd0101h_def pr fr Let_def sum.case er using True by simp
  next
    case False
    then obtain cmd where fr: "cmd0101h_frame startLPLsize header imagesize = Inr cmd"
      by (simp add: cmd0101h_frame_eq Let_def)
    show ?thesis
      unfolding cmd0101h_def pr fr Let_def sum.case summary_status [OF assms q]
      using False by simp
  qed
qed

lemma summary_cmd0109h:
  assumes "no_busy_poll s"
  shows "summary s (cmd0109h mode s) =
     (if mode < 0 \<or> 255 < mode then Some (Inl ValueError, 0, [])
      else Some (Inr (if polled s 0 = 1 \<or> polled s 1 = 1 then 1 else polled s 2),
           (if polled s 0 = 1 then 1 else if polled s 1 = 1 then 2 else 3),
           (if polled s 0 = 1 then [] else if polled s 1 = 1 then [polled s 0]
            else if polled s 2 = 1 then [polled s 0, polled s 1]
            else [polled s 0, polled s 1, polled s 2])))"
proof (cases "mode < 0 \<or> 255 < mode")
  case True
  then have fr: "cmd0109h_frame mode = Inl ValueError"
    by (simp add: cmd0109h_frame_def)
  show ?thesis
    unfolding cmd0109h_def fr sum.case using True by simp
next
  case False
  then obtain cmd where fr: "cmd0109h_frame mode = Inr cmd"
    by (simp add: cmd0109h_frame_def Let_def)
  show ?thesis
    unfolding cmd0109h_def fr sum.case summary_status0 [OF assms] using False by simp
qed

lemmas summary_reply_cmds =
  summary_reply [of _ cmd0000h_frame, folded cmd0000h_def]
  summary_reply [of _ cmd0001h_frame, folded cmd0001h_def]
  summary_reply [of _ cmd0040h_frame, folded cmd0040h_def]
  summary_reply [of _ cmd0041h_frame, folded cmd0041h_def]
  summary_reply [of _ cmd0100h_frame, folded cmd0100h_def]

lemmas summary_status_cmds =
  summary_status0 [of _ cmd0102h_frame, folded cmd0102h_def]
  summary_status0 [of _ "cmd0103h_frame addr data", folded cmd0103h_def]
  summary_status0 [of _ cmd0107h_frame, folded cmd0107h_def]
  summary_status0 [of _ cmd010Ah_frame, folded cmd010Ah_def]
  for addr data

lemma example_polled: "polled (example_module statuses faults) k = statuses k"
  by (simp add: polled_def example_module_def)

lemma example_reply: "fst (read_cdb (example_module statuses faults)) = (3, 0xf9, [1, 2, 3])"
  by (simp add: read_cdb_def read_def read_flexible_def emit_def example_module_def)

lemma fst_summary: "map_option fst (summary s r) = map_option fst r"
  by (cases r) (auto simp: summary_def)

section \<open>The retry policy\<close>

text \<open>
  C10 (amended). Every command takes exactly the status value \<open>0x01\<close> for success
  among the statuses that its polls return, which are the statuses with the busy bit
  clear. When no status read of the loop is busy, the \<open>k\<close>-th attempt ends the loop if its status is \<open>0x01\<close>;
  for every other value, \<open>0x03\<close> included, the status is reported as failed and the
  next attempt is made, until three attempts are done. So the number of attempts is 1
  if the first status is \<open>0x01\<close>, 2 if only the second is, and 3 otherwise, and the
  reported failures are the statuses before the first \<open>0x01\<close>. This holds for the five
  commands that return the reply and for the seven that return the status (with
  arguments on which they do not raise).
\<close>

theorem status_1_is_the_only_success:
  assumes "no_busy_poll s"
    and "0 \<le> startLPLsize + 8" and "startLPLsize + 8 \<le> 255"
    and "0 \<le> addr4" and "addr4 < 2 ^ 32" and "autopaging_flag \<longrightarrow> writelength \<noteq> 0"
    and "0 \<le> mode" and "mode \<le> 255"
  shows
    "let v0 = polled s 0; v1 = polled s 1; v2 = polled s 2;
         attempts = (if v0 = 0x1 then 1 else if v1 = 0x1 then 2 else 3);
         failed = (if v0 = 0x1 then [] else if v1 = 0x1 then [v0]
                   else if v2 = 0x1 then [v0, v1] else [v0, v1, v2])
     in (\<forall>r \<in> set [cmd0000h s, cmd0001h s, cmd0040h s, cmd0041h s, cmd0100h s].
           summary s r = Some (fst (read_cdb s), attempts, failed))
      \<and> (\<forall>r \<in> set [cmd0101h startLPLsize header imagesize s, cmd0102h s,
                      cmd0103h addr3 data3 s,
                      cmd0104h addr4 data4 autopaging_flag writelength s,
                      cmd0107h s, cmd0109h mode s, cmd010Ah s].
           summary s r = Some (Inr (if v0 = 0x1 \<or> v1 = 0x1 then 0x1 else v2), attempts, failed))"
proof -
  note nb = assms(1)
  have "summary s (cmd0101h startLPLsize header imagesize s) =
      Some (Inr (if polled s 0 = 1 \<or> polled s 1 = 1 then 1 else polled s 2),
           (if polled s 0 = 1 then 1 else if polled s 1 = 1 then 2 else 3),
           (if polled s 0 = 1 then [] else if polled s 1 = 1 then [polled s 0]
            else if polled s 2 = 1 then [polled s 0, polled s 1]
            else [polled s 0, polled s 1, polled s 2]))"
    using assms(2,3) by (simp add: summary_cmd0101h [OF nb])
  moreover have "summary s (cmd0104h addr4 data4 autopaging_flag writelength s) =
      Some (Inr (if polled s 0 = 1 \<or> polled s 1 = 1 then 1 else polled s 2),
           (if polled s 0 = 1 then 1 else if polled s 1 = 1 then 2 else 3),
           (if polled s 0 = 1 then [] else if polled s 1 = 1 then [polled s 0]
            else if polled s 2 = 1 then [polled s 0, polled s 1]
            else [polled s 0, polled s 1, polled s 2]))"
    using assms(4-6) by (simp add: summary_cmd0104h [OF nb])
  moreover have "summary s (cmd0109h mode s) =
      Some (Inr (if polled s 0 = 1 \<or> polled s 1 = 1 then 1 else polled s 2),
           (if polled s 0 = 1 then 1 else if polled s 1 = 1 then 2 else 3),
           (if polled s 0 = 1 then [] else if polled s 1 = 1 then [polled s 0]
            else if polled s 2 = 1 then [polled s 0, polled s 1]
            else [polled s 0, polled s 1, polled s 2]))"
    using assms(7,8) by (simp add: summary_cmd0109h [OF nb])
  ultimately show ?thesis
    by (simp only: Let_def list.set ball_simps summary_reply_cmds [OF nb]
        summary_status_cmds [OF nb] simp_thms)
qed

theorem status_1_is_the_only_success_witness:
  "no_busy_poll (example_module (\<lambda>k. if k = 0 then 0x03 else 0x01) 0)
   \<and> (0::int) \<le> 8 + 8 \<and> (8::int) + 8 \<le> 255 \<and> (0::int) \<le> 4096 \<and> (4096::int) < 2 ^ 32
   \<and> (0::int) \<le> 1 \<and> (1::int) \<le> 255
   \<and> summary (example_module (\<lambda>k. if k = 0 then 0x03 else 0x01) 0)
        (cmd0000h (example_module (\<lambda>k. if k = 0 then 0x03 else 0x01) 0)) =
        Some ((3, 0xf9, [1, 2, 3]), 2, [0x03])
   \<and> summary (example_module (\<lambda>k. if k = 0 then 0x03 else 0x01) 0)
        (cmd0103h 0 [] (example_module (\<lambda>k. if k = 0 then 0x03 else 0x01) 0)) =
        Some (Inr 0x01, 2, [0x03])"
  using status_1_is_the_only_success [of "example_module (\<lambda>k. if k = 0 then 0x03 else 0x01) 0" 8 4096 False 0 1
               "[]" 4096 0 "[]" "[]"]
  by (simp add: no_busy_poll_def polled_def example_module_def read_cdb_def read_def read_flexible_def emit_def
      Let_def)

text \<open>
  A status with the busy bit set is also a value other than \<open>0x01\<close>, but it is neither
  reported as failed nor followed by another attempt: on a module that answers \<open>0x81\<close>
  to the first status read and \<open>0x01\<close> afterwards, \<open>cmd0000h\<close> and \<open>cmd0103h\<close> never
  return.
\<close>

theorem busy_status_counterexample:
  "polled (example_module (\<lambda>k. if k = 0 then 0x81 else 0x01) 0) 0 = 0x81
   \<and> polled (example_module (\<lambda>k. if k = 0 then 0x81 else 0x01) 0) 1 = 0x01
   \<and> cmd0000h (example_module (\<lambda>k. if k = 0 then 0x81 else 0x01) 0) = None
   \<and> cmd0103h 0 [] (example_module (\<lambda>k. if k = 0 then 0x81 else 0x01) 0) = None"
proof -
  let ?m = "example_module (\<lambda>k. if k = 0 then 0x81 else 0x01) 0"
  have "\<not> no_busy_poll ?m"
    by (simp add: no_busy_poll_def example_polled)
  then have "retry_loop MAX_TRY cmd None ?m = None" for cmd
    by (rule retry_loop_blocked)
  then show ?thesis
    by (simp add: cmd0000h_def cmd0103h_def return_read_cdb_def return_status_def example_polled)
qed

text \<open>
  C4 (amended). When no status read is busy, every command returns after at most 3
  attempts. If none of the three statuses is \<open>0x01\<close>, exactly 3 attempts are made and
  all three statuses are reported as failed; the commands that return the status then
  return the last status read, which is not \<open>0x01\<close>, while the commands that return
  the reply (\<open>cmd0000h\<close>, \<open>cmd0001h\<close>, \<open>cmd0040h\<close>, \<open>cmd0041h\<close>, \<open>cmd0100h\<close>)
  read the reply and return it, as they do after a success.
\<close>

theorem retry_exhausted_outcome:
  assumes "no_busy_poll s"
  shows
    "(\<forall>r \<in> set [cmd0000h s, cmd0001h s, cmd0040h s, cmd0041h s, cmd0100h s].
        returns_within 3 (summary s r))
     \<and> (\<forall>r \<in> set [cmd0101h startLPLsize header imagesize s, cmd0102h s,
                     cmd0103h addr3 data3 s,
                     cmd0104h addr4 data4 autopaging_flag writelength s,
                     cmd0107h s, cmd0109h mode s, cmd010Ah s].
        returns_within 3 (summary s r))
     \<and> (polled s 0 \<noteq> 0x1 \<and> polled s 1 \<noteq> 0x1 \<and> polled s 2 \<noteq> 0x1
        \<longrightarrow> (\<forall>r \<in> set [cmd0000h s, cmd0001h s, cmd0040h s, cmd0041h s, cmd0100h s].
               summary s r = Some (fst (read_cdb s), 3, [polled s 0, polled s 1, polled s 2])))
     \<and> (polled s 0 \<noteq> 0x1 \<and> polled s 1 \<noteq> 0x1 \<and> polled s 2 \<noteq> 0x1
        \<and> 0 \<le> startLPLsize + 8 \<and> startLPLsize + 8 \<le> 255
        \<and> 0 \<le> addr4 \<and> addr4 < 2 ^ 32 \<and> (autopaging_flag \<longrightarrow> writelength \<noteq> 0)
        \<and> 0 \<le> mode \<and> mode \<le> 255
        \<longrightarrow> (\<forall>r \<in> set [cmd0101h startLPLsize header imagesize s, cmd0102h s,
                            cmd0103h addr3 data3 s,
                            cmd0104h addr4 data4 autopaging_flag writelength s,
                            cmd0107h s, cmd0109h mode s, cmd010Ah s].
               summary s r = Some (Inr (polled s 2), 3, [polled s 0, polled s 1, polled s 2])))"
  by (simp add: summary_reply_cmds [OF assms] summary_status_cmds [OF assms]
      summary_cmd0101h [OF assms] summary_cmd0104h [OF assms] summary_cmd0109h [OF assms]
      returns_within_def)

theorem retry_exhausted_outcome_witness:
  "no_busy_poll (example_module (\<lambda>k. 0x45) 0)
   \<and> polled (example_module (\<lambda>k. 0x45) 0) 0 \<noteq> 0x1
   \<and> polled (example_module (\<lambda>k. 0x45) 0) 1 \<noteq> 0x1
   \<and> polled (example_module (\<lambda>k. 0x45) 0) 2 \<noteq> 0x1
   \<and> (0::int) \<le> 8 + 8 \<and> (8::int) + 8 \<le> 255 \<and> (0::int) \<le> 4096 \<and> (4096::int) < 2 ^ 32
   \<and> (0::int) \<le> 1 \<and> (1::int) \<le> 255
   \<and> summary (example_module (\<lambda>k. 0x45) 0)
        (cmd0101h 8 [1, 2, 3, 4, 5, 6, 7, 8] 4096 (example_module (\<lambda>k. 0x45) 0)) =
        Some (Inr 0x45, 3, [0x45, 0x45, 0x45])
   \<and> summary (example_module (\<lambda>k. 0x45) 0) (cmd0000h (example_module (\<lambda>k. 0x45) 0)) =
        Some ((3, 0xf9, [1, 2, 3]), 3, [0x45, 0x45, 0x45])"
  using retry_exhausted_outcome [of "example_module (\<lambda>k. 0x45) 0" 8 "[1, 2, 3, 4, 5, 6, 7, 8]" 4096 0 "[]"
              4096 "[]" False 0 1]
  by (simp add: no_busy_poll_def example_polled example_reply)

text \<open>
  The explicit failure that the specification states is missing in \<open>cmd0000h\<close>: on a
  module whose status is always \<open>0x45\<close> (failed, check code error) the command makes
  three failed attempts and returns the very reply that it returns on a module whose
  status is \<open>0x01\<close>.
\<close>

theorem retry_exhausted_reply_counterexample:
  "map_option fst (cmd0000h (example_module (\<lambda>k. 0x45) 0)) = Some (3, 0xf9, [1, 2, 3])
   \<and> map_option fst (cmd0000h (example_module (\<lambda>k. 0x01) 0)) = Some (3, 0xf9, [1, 2, 3])
   \<and> summary (example_module (\<lambda>k. 0x45) 0) (cmd0000h (example_module (\<lambda>k. 0x45) 0)) =
        Some ((3, 0xf9, [1, 2, 3]), 3, [0x45, 0x45, 0x45])"
proof -
  have a: "summary (example_module (\<lambda>k. 0x45) 0) (cmd0000h (example_module (\<lambda>k. 0x45) 0)) =
        Some ((3, 0xf9, [1, 2, 3]), 3, [0x45, 0x45, 0x45])"
    by (subst summary_reply_cmds) (simp_all add: no_busy_poll_def example_polled example_reply)
  have b: "summary (example_module (\<lambda>k. 0x01) 0) (cmd0000h (example_module (\<lambda>k. 0x01) 0)) =
        Some ((3, 0xf9, [1, 2, 3]), 1, [])"
    by (subst summary_reply_cmds) (simp_all add: no_busy_poll_def example_polled example_reply)
  have "map_option fst (cmd0000h (example_module (\<lambda>k. 0x45) 0)) =
      map_option fst (summary (example_module (\<lambda>k. 0x45) 0)
           (cmd0000h (example_module (\<lambda>k. 0x45) 0)))"
    by (simp only: fst_summary)
  also have "\<dots> = Some (3, 0xf9, [1, 2, 3])"
    by (simp only: a option.map fst_conv)
  finally have a': "map_option fst (cmd0000h (example_module (\<lambda>k. 0x45) 0)) =
      Some (3, 0xf9, [1, 2, 3])" .
  have "map_option fst (cmd0000h (example_module (\<lambda>k. 0x01) 0)) =
      map_option fst (summary (example_module (\<lambda>k. 0x01) 0)
           (cmd0000h (example_module (\<lambda>k. 0x01) 0)))"
    by (simp only: fst_summary)
  also have "\<dots> = Some (3, 0xf9, [1, 2, 3])"
    by (simp only: b option.map fst_conv)
  finally have b': "map_option fst (cmd0000h (example_module (\<lambda>k. 0x01) 0)) =
      Some (3, 0xf9, [1, 2, 3])" .
  from a' b' a show ?thesis by (intro conjI)
qed

end
